theory Spec2Isabelle
  imports Main
begin

unbundle bit_operations_syntax

section \<open>The crash snapshot\<close>

text \<open>
  \<^verbatim>\<open>analyze_debug.py\<close> reads a JSON document and looks keys up in its objects. The
  values have the types of the snapshot's data model (integers, booleans, strings, lists,
  nested objects); what the script decides at run time is whether a key is there. Each
  key of an object is therefore a field of a record holding an option: \<open>None\<close> when the
  object has no such key, \<open>Some v\<close> when it maps the key to \<open>v\<close>. Python's integers are
  unbounded, so they are \<open>int\<close>.
\<close>

record midi_event =
  status :: "int option"
  data1 :: "int option"
  data2 :: "int option"

record bucket =
  pulse :: "int option"
  events :: "midi_event list option"

record counters =
  stepCallCount :: "int option"
  totalClockEdges :: "int option"
  totalMidiReceived :: "int option"
  totalMidiSent :: "int option"
  lastPulseWithMidi :: "int option"
  lastMidiSent :: "midi_event option"

record slot =
  guid :: "string option"
  loopLength :: "int option"
  currentPulse :: "int option"
  isRecording :: "bool option"
  isPlaying :: "bool option"
  debug :: "counters option"
  buckets :: "bucket list option"

record snapshot =
  slots :: "slot list option"

text \<open>The empty object \<^verbatim>\<open>{}\<close>, the default of \<^verbatim>\<open>vloop.get('debug', {})\<close> and of
  \<^verbatim>\<open>debug.get('lastMidiSent', {})\<close>: no key is present.\<close>

definition empty_counters :: counters where
  "empty_counters =
     \<lparr>stepCallCount = None, totalClockEdges = None, totalMidiReceived = None,
      totalMidiSent = None, lastPulseWithMidi = None, lastMidiSent = None\<rparr>"

definition empty_event :: midi_event where
  "empty_event = \<lparr>status = None, data1 = None, data2 = None\<rparr>"

section \<open>Exceptions and standard output\<close>

text \<open>
  The exceptions the script can raise. \<open>LoadError\<close> stands for whatever \<^verbatim>\<open>open\<close> or
  \<^verbatim>\<open>json.load\<close> raises (an \<^verbatim>\<open>OSError\<close> or a \<^verbatim>\<open>JSONDecodeError\<close>); \<open>KeyError k\<close> is
  the subscript \<^verbatim>\<open>d[k]\<close> on an object without the key \<open>k\<close>.
\<close>

datatype error =
    LoadError
  | KeyError string
  | ValueError
  | ZeroDivisionError
  | OverflowError

text \<open>
  What a run of statements does: the strings it has handed to \<^verbatim>\<open>print\<close>, in order, and
  the exception that ended it, if one did. The lines printed before an exception stay
  printed.
\<close>

type_synonym outcome = "string list \<times> error option"

definition skip :: outcome where
  "skip = ([], None)"

definition emit :: "string \<Rightarrow> outcome" where
  "emit s = ([s], None)"

definition raise :: "error \<Rightarrow> outcome" where
  "raise e = ([], Some e)"

text \<open>One statement after another: the second runs only if the first raised nothing.\<close>

definition seq :: "outcome \<Rightarrow> outcome \<Rightarrow> outcome" where
  "seq a b = (case snd a of Some e \<Rightarrow> a | None \<Rightarrow> (fst a @ fst b, snd b))"

text \<open>An expression that may raise, and the statements that use its value.\<close>

fun eval :: "error + 'a \<Rightarrow> ('a \<Rightarrow> outcome) \<Rightarrow> outcome" where
  "eval (Inl e) k = raise e"
| "eval (Inr v) k = k v"

text \<open>\<^verbatim>\<open>d[k]\<close> and \<^verbatim>\<open>d.get(k, default)\<close>, on the field that holds the key \<open>k\<close> of \<open>d\<close>.\<close>

fun item :: "string \<Rightarrow> 'a option \<Rightarrow> error + 'a" where
  "item k None = Inl (KeyError k)"
| "item k (Some v) = Inr v"

fun get :: "'a option \<Rightarrow> 'a \<Rightarrow> 'a" where
  "get None d = d"
| "get (Some v) d = v"

text \<open>The text that reaches standard output: \<^verbatim>\<open>print\<close> ends each string with a newline.\<close>

definition stdout :: "outcome \<Rightarrow> string" where
  "stdout r = concat (map (\<lambda>s. s @ [CHR 0x0A]) (fst r))"

section \<open>Formatting\<close>

definition digit_char :: "nat \<Rightarrow> char" where
  "digit_char d = ''0123456789abcdef'' ! d"

fun dec_digits :: "nat \<Rightarrow> string" where
  "dec_digits n =
     (if n < 10 then [digit_char n] else dec_digits (n div 10) @ [digit_char (n mod 10)])"

fun hex_digits :: "nat \<Rightarrow> string" where
  "hex_digits n =
     (if n < 16 then [digit_char n] else hex_digits (n div 16) @ [digit_char (n mod 16)])"

declare dec_digits.simps [simp del] hex_digits.simps [simp del]

text \<open>\<^verbatim>\<open>str(i)\<close>, which is also \<^verbatim>\<open>f"{i}"\<close>, and \<^verbatim>\<open>hex(i)\<close>, for an integer.\<close>

definition str_int :: "int \<Rightarrow> string" where
  "str_int i = (if i < 0 then ''-'' @ dec_digits (nat (- i)) else dec_digits (nat i))"

definition hex :: "int \<Rightarrow> string" where
  "hex i = (if i < 0 then ''-0x'' @ hex_digits (nat (- i)) else ''0x'' @ hex_digits (nat i))"

definition str_bool :: "bool \<Rightarrow> string" where
  "str_bool b = (if b then ''True'' else ''False'')"

text \<open>\<^verbatim>\<open>f"{i:,}"\<close>: the decimal digits in groups of three from the right.\<close>

fun group3 :: "string \<Rightarrow> string" where
  "group3 ds =
     (if length ds \<le> 3 then ds
      else group3 (take (length ds - 3) ds) @ '','' @ drop (length ds - 3) ds)"

declare group3.simps [simp del]

definition format_comma :: "int \<Rightarrow> string" where
  "format_comma i =
     (if i < 0 then ''-'' @ group3 (dec_digits (nat (- i))) else group3 (dec_digits (nat i)))"

section \<open>The MIDI message of an event\<close>

text \<open>Lines 47 to 56: the message sent last, printed at once.\<close>

definition last_midi_line :: "int \<Rightarrow> int \<Rightarrow> int \<Rightarrow> string" where
  "last_midi_line st d1 d2 =
     (let msg_type = st AND 0xF0;
          channel = (st AND 0x0F) + 1
      in if msg_type = 0x90 then
           ''  Note On ch'' @ str_int channel @ '': note='' @ str_int d1 @ '' vel='' @ str_int d2
         else if msg_type = 0x80 then
           ''  Note Off ch'' @ str_int channel @ '': note='' @ str_int d1 @ '' vel='' @ str_int d2
         else if msg_type = 0xB0 then
           ''  CC ch'' @ str_int channel @ '': cc='' @ str_int d1 @ '' val='' @ str_int d2
         else
           ''  Status='' @ hex st @ '' data1='' @ str_int d1 @ '' data2='' @ str_int d2)"

text \<open>Lines 88 to 98: the message of an event of the crash bucket.\<close>

definition event_msg :: "int \<Rightarrow> int \<Rightarrow> int \<Rightarrow> string" where
  "event_msg st d1 d2 =
     (let msg_type = st AND 0xF0;
          ch = (st AND 0x0F) + 1
      in if msg_type = 0x90 then
           ''Note On ch'' @ str_int ch @ '': note='' @ str_int d1 @ '' vel='' @ str_int d2
         else if msg_type = 0x80 then
           ''Note Off ch'' @ str_int ch @ '': note='' @ str_int d1 @ '' vel='' @ str_int d2
         else if msg_type = 0xB0 then
           ''CC ch'' @ str_int ch @ '': cc='' @ str_int d1 @ '' val='' @ str_int d2
         else
           ''Status='' @ hex st @ '' data1='' @ str_int d1 @ '' data2='' @ str_int d2)"

section \<open>Floating point\<close>

text \<open>
  The two ratios of the last section are Python floats: \<^verbatim>\<open>a / b\<close> on integers gives the
  double nearest to the exact quotient (ties to the even mantissa), and raises when the
  divisor is zero or when that double would be infinite. A finite double is a sign, a
  mantissa up to \<open>2 ^ 53\<close> and an exponent from \<open>- 1074\<close> up; its value is
  \<open>mantissa * 2 ^ exponent\<close>, negated when \<open>negative\<close>. Zero keeps its sign.
\<close>

record pyfloat =
  negative :: bool
  mantissa :: nat
  exponent :: int

fun bit_length :: "nat \<Rightarrow> nat" where
  "bit_length n = (if n = 0 then 0 else Suc (bit_length (n div 2)))"

declare bit_length.simps [simp del]

text \<open>The integer nearest to \<open>n / d\<close>, the even one of the two when \<open>n / d\<close> is halfway.\<close>

definition round_half_even :: "nat \<Rightarrow> nat \<Rightarrow> nat" where
  "round_half_even n d =
     (let q = n div d; r = n mod d
      in if 2 * r < d then q
         else if d < 2 * r then q + 1
         else if even q then q else q + 1)"

text \<open>\<open>n * 2 ^ k / d\<close> as a fraction of naturals, for an exponent \<open>k\<close> of either sign.\<close>

definition scaled_num :: "nat \<Rightarrow> int \<Rightarrow> nat" where
  "scaled_num n k = (if 0 \<le> k then n * 2 ^ nat k else n)"

definition scaled_den :: "nat \<Rightarrow> int \<Rightarrow> nat" where
  "scaled_den d k = (if 0 \<le> k then d else d * 2 ^ nat (- k))"

text \<open>The exponent of the double nearest to \<open>n / d\<close> (both positive): the largest \<open>e\<close>
  with \<open>2 ^ 52 * 2 ^ e \<le> n / d\<close>, and the least exponent \<open>- 1074\<close> for a subnormal.\<close>

definition double_exponent :: "nat \<Rightarrow> nat \<Rightarrow> int" where
  "double_exponent n d =
     (let k = int (bit_length n) - int (bit_length d);
          floor_log2 = (if scaled_den d (- k) \<le> scaled_num n (- k) then k else k - 1)
      in max (floor_log2 - 52) (- 1074))"

definition true_div :: "int \<Rightarrow> int \<Rightarrow> error + pyfloat" where
  "true_div a b =
     (if b = 0 then Inl ZeroDivisionError
      else if a = 0 then Inr \<lparr>negative = (b < 0), mantissa = 0, exponent = 0\<rparr>
      else
        let n = nat \<bar>a\<bar>; d = nat \<bar>b\<bar>;
            e = double_exponent n d;
            m = round_half_even (scaled_num n (- e)) (scaled_den d (- e))
        in if 971 < e \<or> (e = 971 \<and> m = 2 ^ 53) then Inl OverflowError
           else Inr \<lparr>negative = ((a < 0) \<noteq> (b < 0)), mantissa = m, exponent = e\<rparr>)"

text \<open>\<^verbatim>\<open>f"{x:.pf}"\<close> for \<open>p > 0\<close>: the value of the double times \<open>10 ^ p\<close>, rounded to
  the nearest integer (ties to even), with the point before its last \<open>p\<close> digits.\<close>

definition pad_zeros :: "nat \<Rightarrow> string \<Rightarrow> string" where
  "pad_zeros p ds = replicate (p - length ds) CHR ''0'' @ ds"

definition format_fixed :: "nat \<Rightarrow> pyfloat \<Rightarrow> string" where
  "format_fixed p x =
     (let n = round_half_even (scaled_num (mantissa x * 10 ^ p) (exponent x))
                (scaled_den 1 (exponent x))
      in (if negative x then ''-'' else []) @ dec_digits (n div 10 ^ p) @ ''.'' @
         pad_zeros p (dec_digits (n mod 10 ^ p)))"

section \<open>The report, section by section\<close>

text \<open>Lines 12 to 16: the first slot whose \<^verbatim>\<open>guid\<close> is \<^verbatim>\<open>'VLOP'\<close>. A slot without the
  key never matches, since \<^verbatim>\<open>slot.get('guid')\<close> is then \<^verbatim>\<open>None\<close>.\<close>

fun find_vloop :: "slot list \<Rightarrow> slot option" where
  "find_vloop [] = None"
| "find_vloop (s # ss) = (if guid s = Some ''VLOP'' then Some s else find_vloop ss)"

text \<open>Lines 22 to 24.\<close>

definition banner :: outcome where
  "banner =
     seq (emit (replicate 70 CHR ''=''))
    (seq (emit ''VLoop CRASH ANALYSIS'')
         (emit (replicate 70 CHR ''='')))"

text \<open>Lines 27 to 31.\<close>

definition playback_state :: "slot \<Rightarrow> outcome" where
  "playback_state vloop =
     seq (emit (CHR 0x0A # ''=== PLAYBACK STATE ===''))
    (seq (eval (item ''loopLength'' (loopLength vloop)) (\<lambda>n.
            emit (''Loop Length:    '' @ str_int n @ '' pulses'')))
    (seq (eval (item ''currentPulse'' (currentPulse vloop)) (\<lambda>n.
            emit (''Current Pulse:  '' @ str_int n @ '' <-- CRASHED HERE'')))
    (seq (eval (item ''isRecording'' (isRecording vloop)) (\<lambda>b.
            emit (''Is Recording:   '' @ str_bool b)))
         (eval (item ''isPlaying'' (isPlaying vloop)) (\<lambda>b.
            emit (''Is Playing:     '' @ str_bool b))))))"

text \<open>Lines 35 to 39.\<close>

definition debug_counters :: "counters \<Rightarrow> outcome" where
  "debug_counters dbg =
     seq (emit (CHR 0x0A # ''=== DEBUG COUNTERS ===''))
    (seq (emit (''Total step() calls:     '' @ format_comma (get (stepCallCount dbg) 0)))
    (seq (emit (''Total clock edges:      '' @ format_comma (get (totalClockEdges dbg) 0)))
    (seq (emit (''Total MIDI received:    '' @ format_comma (get (totalMidiReceived dbg) 0)))
         (emit (''Total MIDI sent:        '' @ format_comma (get (totalMidiSent dbg) 0))))))"

text \<open>Lines 41 to 56.\<close>

definition last_midi_sent :: "counters \<Rightarrow> outcome" where
  "last_midi_sent dbg =
     (let last_midi = get (lastMidiSent dbg) empty_event
      in seq (emit (CHR 0x0A # ''Last MIDI sent at pulse '' @
                str_int (get (lastPulseWithMidi dbg) 0) @ '':''))
             (emit (last_midi_line (get (status last_midi) 0) (get (data1 last_midi) 0)
                (get (data2 last_midi) 0))))"

text \<open>A generator expression handed to \<^verbatim>\<open>sum\<close> or \<^verbatim>\<open>max\<close>, or a list comprehension:
  the elements are computed one by one, and the first that raises ends the whole.\<close>

fun comprehension :: "('a \<Rightarrow> error + 'b) \<Rightarrow> 'a list \<Rightarrow> error + 'b list" where
  "comprehension f [] = Inr []"
| "comprehension f (x # xs) =
     (case f x of Inl e \<Rightarrow> Inl e
      | Inr v \<Rightarrow> (case comprehension f xs of Inl e \<Rightarrow> Inl e | Inr vs \<Rightarrow> Inr (v # vs)))"

fun sum_loop :: "('a \<Rightarrow> error + nat) \<Rightarrow> nat \<Rightarrow> 'a list \<Rightarrow> error + nat" where
  "sum_loop f acc [] = Inr acc"
| "sum_loop f acc (x # xs) =
     (case f x of Inl e \<Rightarrow> Inl e | Inr v \<Rightarrow> sum_loop f (acc + v) xs)"

fun max_loop :: "('a \<Rightarrow> error + nat) \<Rightarrow> nat \<Rightarrow> 'a list \<Rightarrow> error + nat" where
  "max_loop f m [] = Inr m"
| "max_loop f m (x # xs) =
     (case f x of Inl e \<Rightarrow> Inl e | Inr v \<Rightarrow> max_loop f (if m < v then v else m) xs)"

definition py_sum :: "('a \<Rightarrow> error + nat) \<Rightarrow> 'a list \<Rightarrow> error + nat" where
  "py_sum f xs = sum_loop f 0 xs"

fun py_max :: "('a \<Rightarrow> error + nat) \<Rightarrow> 'a list \<Rightarrow> error + nat" where
  "py_max f [] = Inl ValueError"
| "py_max f (x # xs) = (case f x of Inl e \<Rightarrow> Inl e | Inr v \<Rightarrow> max_loop f v xs)"

text \<open>\<^verbatim>\<open>len(b['events'])\<close>.\<close>

definition len_events :: "bucket \<Rightarrow> error + nat" where
  "len_events b = (case item ''events'' (events b) of Inl e \<Rightarrow> Inl e | Inr evs \<Rightarrow> Inr (length evs))"

text \<open>Lines 60 to 69. The list \<^verbatim>\<open>pulse_numbers\<close> of line 63 is never read, but building
  it subscripts every bucket.\<close>

definition bucket_analysis :: "slot \<Rightarrow> bucket list \<Rightarrow> outcome" where
  "bucket_analysis vloop bs =
     seq (emit (CHR 0x0A # ''=== BUCKET ANALYSIS ===''))
    (seq (eval (item ''loopLength'' (loopLength vloop)) (\<lambda>n.
            emit (''Non-empty buckets: '' @ dec_digits (length bs) @ ''/'' @ str_int n)))
         (eval (comprehension (\<lambda>b. item ''pulse'' (pulse b)) bs) (\<lambda>pulse_numbers.
          eval (py_sum len_events bs) (\<lambda>total_events.
          eval (if bs \<noteq> [] then py_max len_events bs else Inr 0) (\<lambda>max_events.
            seq (emit (''Total recorded events: '' @ dec_digits total_events))
                (emit (''Max events per bucket: '' @ dec_digits max_events)))))))"

text \<open>Lines 75 to 79: the first bucket at the crash pulse.\<close>

fun find_crash_bucket :: "int \<Rightarrow> bucket list \<Rightarrow> error + bucket option" where
  "find_crash_bucket crash_pulse [] = Inr None"
| "find_crash_bucket crash_pulse (b # bs) =
     (case item ''pulse'' (pulse b) of Inl e \<Rightarrow> Inl e
      | Inr p \<Rightarrow> if p = crash_pulse then Inr (Some b) else find_crash_bucket crash_pulse bs)"

text \<open>Lines 84 to 101: the loop over \<^verbatim>\<open>enumerate(events)\<close>, from the index \<open>i\<close> on.\<close>

fun print_events :: "nat \<Rightarrow> midi_event list \<Rightarrow> outcome" where
  "print_events i [] = skip"
| "print_events i (ev # evs) =
     seq (eval (item ''status'' (status ev)) (\<lambda>st.
          eval (item ''data1'' (data1 ev)) (\<lambda>d1.
          eval (item ''data2'' (data2 ev)) (\<lambda>d2.
            let msg = event_msg st d1 d2;
                marker = (if i = 0 then '' <-- WOULD SEND THIS'' else [])
            in emit (''  Event '' @ dec_digits i @ '': '' @ msg @ marker)))))
         (print_events (Suc i) evs)"

text \<open>Lines 72 to 103. A bucket found by the loop has the key \<^verbatim>\<open>pulse\<close>, so it is not
  the empty object and \<^verbatim>\<open>if crash_bucket\<close> holds exactly when one was found.\<close>

definition crash_point :: "int \<Rightarrow> bucket list \<Rightarrow> outcome" where
  "crash_point crash_pulse bs =
     seq (emit (CHR 0x0A # ''=== CRASH POINT (Pulse '' @ str_int crash_pulse @ '') ===''))
         (eval (find_crash_bucket crash_pulse bs) (\<lambda>crash_bucket.
            case crash_bucket of
              Some b \<Rightarrow>
                eval (item ''events'' (events b)) (\<lambda>evs.
                  seq (emit (''Bucket at crash has '' @ dec_digits (length evs) @ '' events:''))
                      (print_events 0 evs))
            | None \<Rightarrow> emit ''Bucket at crash pulse is EMPTY (no events)''))"

text \<open>Lines 107 to 112.\<close>

fun surrounding_loop :: "int \<Rightarrow> bucket list \<Rightarrow> outcome" where
  "surrounding_loop crash_pulse [] = skip"
| "surrounding_loop crash_pulse (b # bs) =
     seq (eval (item ''pulse'' (pulse b)) (\<lambda>p.
            if crash_pulse - 3 \<le> p \<and> p \<le> crash_pulse + 3 then
              eval (item ''pulse'' (pulse b)) (\<lambda>pulse_b.
              eval (item ''events'' (events b)) (\<lambda>evs.
                let marker = (if pulse_b = crash_pulse then '' <-- CRASH'' else [])
                in emit (''Pulse '' @ str_int pulse_b @ '': '' @ dec_digits (length evs) @
                     '' events'' @ marker)))
            else skip))
         (surrounding_loop crash_pulse bs)"

definition surrounding_buckets :: "int \<Rightarrow> bucket list \<Rightarrow> outcome" where
  "surrounding_buckets crash_pulse bs =
     seq (emit (CHR 0x0A # ''=== SURROUNDING BUCKETS ===''))
         (surrounding_loop crash_pulse bs)"

text \<open>Lines 115 to 122.\<close>

definition performance_stats :: "slot \<Rightarrow> counters \<Rightarrow> outcome" where
  "performance_stats vloop dbg =
     seq (emit (CHR 0x0A # ''=== PERFORMANCE STATS ===''))
         (if 0 < get (totalClockEdges dbg) 0 then
            eval (true_div (get (stepCallCount dbg) 0) (get (totalClockEdges dbg) 1)) (\<lambda>avg_frames.
              seq (emit (''Avg step() calls per clock: '' @ format_fixed 1 avg_frames))
                  (eval (item ''loopLength'' (loopLength vloop)) (\<lambda>n.
                     if 0 < n then
                       eval (true_div (get (totalClockEdges dbg) 0) n) (\<lambda>loops_played.
                         emit (''Loops played before crash: '' @ format_fixed 2 loops_played))
                     else skip)))
          else skip)"

section \<open>The whole report\<close>

text \<open>The body of \<^verbatim>\<open>analyze_crash\<close> once the document is loaded.\<close>

definition report_slot :: "slot \<Rightarrow> outcome" where
  "report_slot vloop =
     seq banner
    (seq (playback_state vloop)
         (let dbg = get (debug vloop) empty_counters
          in seq (debug_counters dbg)
            (seq (last_midi_sent dbg)
                 (let bs = get (buckets vloop) []
                  in seq (bucket_analysis vloop bs)
                         (eval (item ''currentPulse'' (currentPulse vloop)) (\<lambda>crash_pulse.
                            seq (crash_point crash_pulse bs)
                           (seq (surrounding_buckets crash_pulse bs)
                                (performance_stats vloop dbg))))))))"

definition report :: "snapshot \<Rightarrow> outcome" where
  "report data =
     eval (item ''slots'' (slots data)) (\<lambda>ss.
       case find_vloop ss of
         None \<Rightarrow> emit ''ERROR: VLoop slot not found''
       | Some vloop \<Rightarrow> report_slot vloop)"

text \<open>\<^verbatim>\<open>analyze_crash(filename)\<close>: the files that can be read and parsed are those the
  store \<open>files\<close> maps to their document.\<close>

definition json_load :: "(string \<rightharpoonup> snapshot) \<Rightarrow> string \<Rightarrow> error + snapshot" where
  "json_load files filename =
     (case files filename of None \<Rightarrow> Inl LoadError | Some data \<Rightarrow> Inr data)"

definition analyze_crash :: "(string \<rightharpoonup> snapshot) \<Rightarrow> string \<Rightarrow> outcome" where
  "analyze_crash files filename = eval (json_load files filename) report"

section \<open>Complete objects and example snapshots\<close>

text \<open>An event object with its three keys, and a bucket object with its two.\<close>

definition mk_event :: "int \<Rightarrow> int \<Rightarrow> int \<Rightarrow> midi_event" where
  "mk_event st d1 d2 = \<lparr>status = Some st, data1 = Some d1, data2 = Some d2\<rparr>"

definition mk_bucket :: "int \<Rightarrow> midi_event list \<Rightarrow> bucket" where
  "mk_bucket p evs = \<lparr>pulse = Some p, events = Some evs\<rparr>"

text \<open>A document without the looper's slot: one slot has no \<^verbatim>\<open>guid\<close>, the other
  another tag.\<close>

definition other_slots :: "slot list" where
  "other_slots =
     [\<lparr>guid = None, loopLength = Some 16, currentPulse = Some 3, isRecording = Some False,
       isPlaying = Some True, debug = None, buckets = None\<rparr>,
      \<lparr>guid = Some ''VLOQ'', loopLength = None, currentPulse = None, isRecording = None,
       isPlaying = None, debug = None, buckets = None\<rparr>]"

text \<open>The decoding rule as the specification words it: the kind of a message, with its
  channel and its two data bytes, and the text shown for each kind.\<close>

datatype midi_message =
    NoteOn int int int
  | NoteOff int int int
  | ControlChange int int int
  | Other int int int

definition midi_rule :: "int \<Rightarrow> int \<Rightarrow> int \<Rightarrow> midi_message" where
  "midi_rule st d1 d2 =
     (let message_type = st AND 0xF0;
          channel = (st AND 0x0F) + 1
      in if message_type = 0x90 then NoteOn channel d1 d2
         else if message_type = 0x80 then NoteOff channel d1 d2
         else if message_type = 0xB0 then ControlChange channel d1 d2
         else Other st d1 d2)"

fun render :: "midi_message \<Rightarrow> string" where
  "render (NoteOn c n v) =
     ''Note On ch'' @ str_int c @ '': note='' @ str_int n @ '' vel='' @ str_int v"
| "render (NoteOff c n v) =
     ''Note Off ch'' @ str_int c @ '': note='' @ str_int n @ '' vel='' @ str_int v"
| "render (ControlChange c n v) =
     ''CC ch'' @ str_int c @ '': cc='' @ str_int n @ '' val='' @ str_int v"
| "render (Other st d1 d2) =
     ''Status='' @ hex st @ '' data1='' @ str_int d1 @ '' data2='' @ str_int d2"

text \<open>Buckets around pulse 50: two outside the window of three pulses, four inside, in
  the order of the document, which is not the order of the pulses.\<close>

definition example_buckets :: "(int \<times> midi_event list) list" where
  "example_buckets =
     [(52, [mk_event 0xF8 0 0]),
      (10, [mk_event 0x90 61 90]),
      (50, [mk_event 0x90 60 100, mk_event 0xB2 7 127]),
      (54, []),
      (48, [mk_event 0x81 40 0, mk_event 0x90 62 80, mk_event 0x80 62 0]),
      (49, [mk_event 0x81 40 0])]"

definition example_counters :: counters where
  "example_counters =
     \<lparr>stepCallCount = Some 1000, totalClockEdges = Some 20,
      totalMidiReceived = Some 1234567, totalMidiSent = Some 3,
      lastPulseWithMidi = Some 49, lastMidiSent = Some (mk_event 0x81 40 0)\<rparr>"

definition example_slot :: slot where
  "example_slot =
     \<lparr>guid = Some ''VLOP'', loopLength = Some 96, currentPulse = Some 50,
      isRecording = Some False, isPlaying = Some True,
      debug = Some example_counters,
      buckets = Some (map (case_prod mk_bucket) example_buckets)\<rparr>"

text \<open>The counters all present and zero, with no message sent last.\<close>

definition zero_counters :: counters where
  "zero_counters =
     \<lparr>stepCallCount = Some 0, totalClockEdges = Some 0, totalMidiReceived = Some 0,
      totalMidiSent = Some 0, lastPulseWithMidi = Some 0, lastMidiSent = None\<rparr>"

text \<open>A slot whose clock never ticked, in a document with two other slots before it.\<close>

definition idle_counters :: counters where
  "idle_counters = example_counters\<lparr>totalClockEdges := Some 0\<rparr>"

definition idle_snapshot :: snapshot where
  "idle_snapshot =
     \<lparr>slots = Some (other_slots @ [example_slot\<lparr>debug := Some idle_counters\<rparr>])\<rparr>"



text \<open>The two lines of the performance section that show a ratio, and a run that
  prints neither.\<close>

definition stat_line :: "string \<Rightarrow> bool" where
  "stat_line l =
     (take 28 l = ''Avg step() calls per clock: '' \<or> take 27 l = ''Loops played before crash: '')"

definition quiet :: "outcome \<Rightarrow> bool" where
  "quiet r = (\<forall>l\<in>set (fst r). \<not> stat_line l)"



section \<open>Sequencing\<close>

lemma seq_emit: "seq (emit s) b = (s # fst b, snd b)"
  by (simp add: seq_def emit_def)


lemma seq_skip_right: "seq a skip = a"
  by (cases a) (simp add: seq_def skip_def split: option.splits)

lemma seq_raise: "seq (raise e) b = raise e"
  by (simp add: seq_def raise_def)

lemma seq_ok: "seq (xs, None) b = (xs @ fst b, snd b)"
  by (simp add: seq_def)

lemma seq_failed: "seq (xs, Some e) b = (xs, Some e)"
  by (simp add: seq_def)

lemma snd_seq: "snd (seq a b) = (case snd a of Some e \<Rightarrow> Some e | None \<Rightarrow> snd b)"
  by (simp add: seq_def split: option.splits)

lemmas run_simps = seq_ok seq_failed emit_def raise_def skip_def

lemmas show_simps = str_int_def hex_def dec_digits.simps hex_digits.simps digit_char_def

lemma analyze_crash_loaded:
  "files filename = Some data \<Longrightarrow> analyze_crash files filename = report data"
  by (simp add: analyze_crash_def json_load_def)

section \<open>Numbers as text\<close>

text \<open>The decimal digits of a number determine it, so a line that shows a count shows
  no other count.\<close>

lemma digit_char_inj:
  assumes "a < 10" and "b < 10" and "digit_char a = digit_char b"
  shows "a = b"
proof -
  have "a \<in> {0, 1, 2, 3, 4, 5, 6, 7, 8, 9}" "b \<in> {0, 1, 2, 3, 4, 5, 6, 7, 8, 9}"
    using assms(1,2) by auto
  then show ?thesis
    using assms(3) by (auto simp add: digit_char_def)
qed

lemma dec_digits_nonempty: "dec_digits n \<noteq> []"
  by (subst dec_digits.simps) simp

lemma dec_digits_inj: "dec_digits m = dec_digits n \<Longrightarrow> m = n"
proof (induction m arbitrary: n rule: dec_digits.induct)
  case (1 m)
  show ?case
  proof (cases "m < 10")
    case small_m: True
    show ?thesis
    proof (cases "n < 10")
      case True
      with small_m "1.prems" show ?thesis
        by (simp add: dec_digits.simps [of m] dec_digits.simps [of n] digit_char_inj)
    next
      case False
      with small_m "1.prems" dec_digits_nonempty [of "n div 10"] show ?thesis
        by (simp add: dec_digits.simps [of m] dec_digits.simps [of n])
    qed
  next
    case big_m: False
    show ?thesis
    proof (cases "n < 10")
      case True
      with big_m "1.prems" dec_digits_nonempty [of "m div 10"] show ?thesis
        by (simp add: dec_digits.simps [of m] dec_digits.simps [of n])
    next
      case False
      with big_m "1.prems" have "dec_digits (m div 10) = dec_digits (n div 10)"
        and "digit_char (m mod 10) = digit_char (n mod 10)"
        by (simp_all add: dec_digits.simps [of m] dec_digits.simps [of n])
      then have "m div 10 = n div 10" and "m mod 10 = n mod 10"
        using "1.IH" [OF big_m] by (simp_all add: digit_char_inj)
      then show ?thesis
        by (metis div_mult_mod_eq)
    qed
  qed
qed

text \<open>Rounding to the nearest integer is off by at most one half.\<close>

lemma round_half_even_nearest:
  assumes "0 < d"
  shows "2 * n \<le> (2 * round_half_even n d + 1) * d \<and> 2 * round_half_even n d * d \<le> 2 * n + d"
proof -
  define q where "q = n div d"
  define r where "r = n mod d"
  have n: "n = q * d + r" and r: "r < d"
    using assms by (simp_all add: q_def r_def)
  show ?thesis
    unfolding round_half_even_def Let_def q_def [symmetric] r_def [symmetric]
    using r by (auto simp add: n algebra_simps)
qed

section \<open>The slot is not there\<close>

lemma find_vloop_none: "(\<forall>s\<in>set ss. guid s \<noteq> Some ''VLOP'') \<Longrightarrow> find_vloop ss = None"
  by (induction ss) simp_all

text \<open>
  C2. When the document loads, has the key \<^verbatim>\<open>slots\<close>, and none of its slots has the tag
  \<^verbatim>\<open>VLOP\<close>, the run prints the one line \<^verbatim>\<open>ERROR: VLoop slot not found\<close> and returns
  without an exception: the diagnostic line and its newline are all of standard output.
\<close>

theorem no_vloop_slot_report:
  assumes "files filename = Some data"
    and "slots data = Some ss"
    and "\<forall>s\<in>set ss. guid s \<noteq> Some ''VLOP''"
  shows "analyze_crash files filename = ([''ERROR: VLoop slot not found''], None)
    \<and> stdout (analyze_crash files filename) = ''ERROR: VLoop slot not found'' @ [CHR 0x0A]"
  using assms
  by (simp add: analyze_crash_loaded report_def find_vloop_none emit_def stdout_def)

theorem no_vloop_slot_report_witness:
  "analyze_crash [''vltest.json'' \<mapsto> \<lparr>slots = Some other_slots\<rparr>] ''vltest.json''
     = ([''ERROR: VLoop slot not found''], None)
   \<and> analyze_crash [''vltest.json'' \<mapsto> \<lparr>slots = Some []\<rparr>] ''vltest.json''
     = ([''ERROR: VLoop slot not found''], None)"
  using no_vloop_slot_report
      [of "[''vltest.json'' \<mapsto> \<lparr>slots = Some other_slots\<rparr>]" "''vltest.json''"
        "\<lparr>slots = Some other_slots\<rparr>" other_slots]
    no_vloop_slot_report
      [of "[''vltest.json'' \<mapsto> \<lparr>slots = Some []\<rparr>]" "''vltest.json''" "\<lparr>slots = Some []\<rparr>" "[]"]
  by (simp add: other_slots_def)

section \<open>Decoding a MIDI message\<close>

lemma and_0F: "(st::int) AND 0x0F = st mod 16"
  using take_bit_eq_mask [of 4 st] by (simp add: take_bit_eq_mod mask_numeral)

lemma and_F0: "(st::int) AND 0xF0 = 16 * ((st div 16) mod 16)"
proof -
  have "(0xF0::int) = push_bit 4 (mask 4)"
    by (simp add: mask_numeral push_bit_eq_mult)
  then have "st AND 0xF0 = push_bit 4 (take_bit 4 (drop_bit 4 st))"
    by (simp only: bit_eq_iff bit_simps) auto
  then show ?thesis
    by (simp add: push_bit_eq_mult take_bit_eq_mod drop_bit_eq_div)
qed

text \<open>For a status byte, the kind is read off its high nibble and the channel off its
  low nibble.\<close>

lemma midi_rule_byte:
  "midi_rule st d1 d2 =
     (if st div 16 mod 16 = 9 then NoteOn (st mod 16 + 1) d1 d2
      else if st div 16 mod 16 = 8 then NoteOff (st mod 16 + 1) d1 d2
      else if st div 16 mod 16 = 11 then ControlChange (st mod 16 + 1) d1 d2
      else Other st d1 d2)"
  by (simp add: midi_rule_def and_0F and_F0)

lemma event_msg_render: "event_msg st d1 d2 = render (midi_rule st d1 d2)"
  by (simp add: event_msg_def midi_rule_def Let_def)

lemma last_midi_line_render: "last_midi_line st d1 d2 = ''  '' @ render (midi_rule st d1 d2)"
  by (simp add: last_midi_line_def midi_rule_def Let_def)

text \<open>
  C3. Both places that decode a message (the message sent last, lines 47 to 56, and the
  events of the crash bucket, lines 88 to 98) follow the decoding rule: the type is the
  status AND 0xF0, the channel is the status AND 0x0F plus one, type 0x90 is shown as Note
  On, 0x80 as Note Off, 0xB0 as CC (control change), and any other type as the status in
  hexadecimal with both data bytes. The four messages of the specification decode as it
  says.
\<close>

theorem midi_decode_rule:
  "event_msg st d1 d2 = render (midi_rule st d1 d2)
   \<and> last_midi_line st d1 d2 = ''  '' @ render (midi_rule st d1 d2)
   \<and> midi_rule 0x90 60 100 = NoteOn 1 60 100
   \<and> event_msg 0x90 60 100 = ''Note On ch1: note=60 vel=100''
   \<and> midi_rule 0x81 40 0 = NoteOff 2 40 0
   \<and> event_msg 0x81 40 0 = ''Note Off ch2: note=40 vel=0''
   \<and> midi_rule 0xB2 7 127 = ControlChange 3 7 127
   \<and> event_msg 0xB2 7 127 = ''CC ch3: cc=7 val=127''
   \<and> midi_rule 0xF8 0 0 = Other 0xF8 0 0
   \<and> event_msg 0xF8 0 0 = ''Status=0xf8 data1=0 data2=0''"
proof -
  have "midi_rule 0x90 60 100 = NoteOn 1 60 100"
    and "midi_rule 0x81 40 0 = NoteOff 2 40 0"
    and "midi_rule 0xB2 7 127 = ControlChange 3 7 127"
    and "midi_rule 0xF8 0 0 = Other 0xF8 0 0"
    by (simp_all add: midi_rule_def)
  moreover have "event_msg 0x90 60 100 = ''Note On ch1: note=60 vel=100''"
    and "event_msg 0x81 40 0 = ''Note Off ch2: note=40 vel=0''"
    and "event_msg 0xB2 7 127 = ''CC ch3: cc=7 val=127''"
    and "event_msg 0xF8 0 0 = ''Status=0xf8 data1=0 data2=0''"
    by (simp_all add: event_msg_def show_simps)
  ultimately show ?thesis
    by (simp only: event_msg_render last_midi_line_render simp_thms)
qed

theorem midi_decode_rule_witness:
  "last_midi_line 0x9F 72 1 = ''  Note On ch16: note=72 vel=1''
   \<and> event_msg 0xE0 0 64 = ''Status=0xe0 data1=0 data2=64''"
  using midi_decode_rule [of "0x9F" 72 1] midi_decode_rule [of "0xE0" 0 64]
  by (simp add: midi_rule_def show_simps)

section \<open>Bucket statistics\<close>










section \<open>The buckets around the crash\<close>






section \<open>The bucket at the crash pulse\<close>






section \<open>Missing required keys\<close>

lemma playback_state_missing:
  assumes "loopLength v = None \<or> currentPulse v = None \<or> isRecording v = None \<or> isPlaying v = None"
  shows "\<exists>k\<in>set [''loopLength'', ''currentPulse'', ''isRecording'', ''isPlaying''].
           snd (playback_state v) = Some (KeyError k)"
  using assms
  by (cases "loopLength v"; cases "currentPulse v"; cases "isRecording v"; cases "isPlaying v")
    (simp_all add: playback_state_def run_simps)

lemma playback_state_complete:
  assumes "loopLength v = Some n" "currentPulse v = Some cp" "isRecording v = Some r" "isPlaying v = Some p"
  shows "playback_state v =
     ([CHR 0x0A # ''=== PLAYBACK STATE ==='',
       ''Loop Length:    '' @ str_int n @ '' pulses'',
       ''Current Pulse:  '' @ str_int cp @ '' <-- CRASHED HERE'',
       ''Is Recording:   '' @ str_bool r,
       ''Is Playing:     '' @ str_bool p], None)"
  using assms by (simp add: playback_state_def run_simps)

lemma playback_state_header:
  "\<exists>rest. fst (playback_state v) = (CHR 0x0A # ''=== PLAYBACK STATE ==='') # rest"
  by (simp add: playback_state_def seq_emit)

lemma debug_counters_ok: "snd (debug_counters dbg) = None"
  by (simp add: debug_counters_def run_simps)

lemma last_midi_sent_ok: "snd (last_midi_sent dbg) = None"
  by (simp add: last_midi_sent_def run_simps Let_def)

lemma comprehension_pulse_missing:
  "\<exists>b\<in>set bs. pulse b = None \<Longrightarrow>
   comprehension (\<lambda>b. item ''pulse'' (pulse b)) bs = Inl (KeyError ''pulse'')"
proof (induction bs)
  case Nil
  then show ?case by simp
next
  case (Cons b bs)
  show ?case
  proof (cases "pulse b")
    case None
    then show ?thesis by simp
  next
    case (Some p)
    with Cons.prems have "\<exists>b\<in>set bs. pulse b = None" by auto
    with Cons.IH Some show ?thesis by simp
  qed
qed

lemma comprehension_pulse_present:
  "\<forall>b\<in>set bs. pulse b \<noteq> None \<Longrightarrow>
   \<exists>ps. comprehension (\<lambda>b. item ''pulse'' (pulse b)) bs = Inr ps"
  by (induction bs) auto

lemma sum_loop_events_missing:
  "\<exists>b\<in>set bs. events b = None \<Longrightarrow> sum_loop len_events acc bs = Inl (KeyError ''events'')"
proof (induction bs arbitrary: acc)
  case Nil
  then show ?case by simp
next
  case (Cons b bs)
  show ?case
  proof (cases "events b")
    case None
    then show ?thesis by (simp add: len_events_def)
  next
    case (Some evs)
    with Cons.prems have "\<exists>b\<in>set bs. events b = None" by auto
    with Cons.IH Some show ?thesis by (simp add: len_events_def)
  qed
qed

lemma bucket_analysis_missing:
  assumes "loopLength v = Some n"
    and "\<exists>b\<in>set bs. pulse b = None \<or> events b = None"
  shows "\<exists>k\<in>set [''pulse'', ''events'']. snd (bucket_analysis v bs) = Some (KeyError k)"
proof (cases "\<exists>b\<in>set bs. pulse b = None")
  case True
  then show ?thesis
    using assms(1) by (simp add: bucket_analysis_def run_simps comprehension_pulse_missing)
next
  case False
  then obtain ps where ps: "comprehension (\<lambda>b. item ''pulse'' (pulse b)) bs = Inr ps"
    using comprehension_pulse_present [of bs] by auto
  from False assms(2) have "\<exists>b\<in>set bs. events b = None" by auto
  then have "py_sum len_events bs = Inl (KeyError ''events'')"
    by (simp add: py_sum_def sum_loop_events_missing)
  with ps assms(1) show ?thesis
    by (simp add: bucket_analysis_def run_simps)
qed

lemma banner_lines:
  "banner = ([replicate 70 CHR ''='', ''VLoop CRASH ANALYSIS'', replicate 70 CHR ''=''], None)"
  by (simp add: banner_def run_simps)

lemma report_slot_missing:
  assumes "loopLength v = None \<or> currentPulse v = None \<or> isRecording v = None \<or> isPlaying v = None
      \<or> (\<exists>b\<in>set (get (buckets v) []). pulse b = None \<or> events b = None)"
  shows "\<exists>k\<in>set [''loopLength'', ''currentPulse'', ''isRecording'', ''isPlaying'', ''pulse'', ''events''].
           snd (report_slot v) = Some (KeyError k)"
proof (cases "loopLength v = None \<or> currentPulse v = None \<or> isRecording v = None \<or> isPlaying v = None")
  case True
  from playback_state_missing [OF True] obtain k
    where "k \<in> set [''loopLength'', ''currentPulse'', ''isRecording'', ''isPlaying'']"
      and "snd (playback_state v) = Some (KeyError k)" by blast
  then show ?thesis
    by (auto simp add: report_slot_def snd_seq banner_lines)
next
  case False
  then obtain n cp r p where req: "loopLength v = Some n" "currentPulse v = Some cp"
      "isRecording v = Some r" "isPlaying v = Some p"
    by auto
  with assms have "\<exists>b\<in>set (get (buckets v) []). pulse b = None \<or> events b = None"
    by simp
  from bucket_analysis_missing [OF req(1) this] obtain k
    where "k \<in> set [''pulse'', ''events'']"
      and "snd (bucket_analysis v (get (buckets v) [])) = Some (KeyError k)" by blast
  then show ?thesis
    using playback_state_complete [OF req]
    by (auto simp add: report_slot_def snd_seq banner_lines debug_counters_ok last_midi_sent_ok Let_def)
qed

lemma report_slot_starts:
  "take 4 (fst (report_slot v)) =
     [replicate 70 CHR ''='', ''VLoop CRASH ANALYSIS'', replicate 70 CHR ''='',
      CHR 0x0A # ''=== PLAYBACK STATE ==='']"
proof -
  obtain rest where "fst (playback_state v) = (CHR 0x0A # ''=== PLAYBACK STATE ==='') # rest"
    using playback_state_header by blast
  then show ?thesis
    by (cases "snd (playback_state v)") (simp_all add: report_slot_def banner_lines seq_def)
qed


text \<open>
  C10. The required keys are subscripted without a check. With the document loaded: if it
  has no key \<^verbatim>\<open>slots\<close>, the run raises \<^verbatim>\<open>KeyError('slots')\<close> before printing
  anything; if it has the looper's slot and that slot lacks \<^verbatim>\<open>loopLength\<close>,
  \<^verbatim>\<open>currentPulse\<close>, \<^verbatim>\<open>isRecording\<close> or \<^verbatim>\<open>isPlaying\<close>, or one of its buckets lacks
  \<^verbatim>\<open>pulse\<close> or \<^verbatim>\<open>events\<close>, the run raises a \<^verbatim>\<open>KeyError\<close> for one of these keys,
  after the banner and the header of the first section. That is neither a load error nor
  the return after the slot-not-found line.
\<close>

theorem missing_required_key:
  assumes "files filename = Some data"
  shows "(slots data = None \<longrightarrow>
            analyze_crash files filename = ([], Some (KeyError ''slots'')))
    \<and> (slots data = Some ss \<and> find_vloop ss = Some vloop \<and>
         (loopLength vloop = None \<or> currentPulse vloop = None \<or> isRecording vloop = None
          \<or> isPlaying vloop = None
          \<or> (\<exists>b\<in>set (get (buckets vloop) []). pulse b = None \<or> events b = None)) \<longrightarrow>
            (\<exists>k\<in>set [''loopLength'', ''currentPulse'', ''isRecording'', ''isPlaying'',
                      ''pulse'', ''events''].
               snd (analyze_crash files filename) = Some (KeyError k))
            \<and> take 4 (fst (analyze_crash files filename)) =
                [replicate 70 CHR ''='', ''VLoop CRASH ANALYSIS'', replicate 70 CHR ''='',
                 CHR 0x0A # ''=== PLAYBACK STATE ==='']
            \<and> snd (analyze_crash files filename) \<noteq> Some LoadError
            \<and> analyze_crash files filename \<noteq> ([''ERROR: VLoop slot not found''], None))"
proof (intro conjI impI)
  assume "slots data = None"
  with assms show "analyze_crash files filename = ([], Some (KeyError ''slots''))"
    by (simp add: analyze_crash_loaded report_def raise_def)
next
  assume a: "slots data = Some ss \<and> find_vloop ss = Some vloop \<and>
         (loopLength vloop = None \<or> currentPulse vloop = None \<or> isRecording vloop = None
          \<or> isPlaying vloop = None
          \<or> (\<exists>b\<in>set (get (buckets vloop) []). pulse b = None \<or> events b = None))"
  then have run: "analyze_crash files filename = report_slot vloop"
    using assms by (simp add: analyze_crash_loaded report_def)
  from a have "\<exists>k\<in>set [''loopLength'', ''currentPulse'', ''isRecording'', ''isPlaying'',
      ''pulse'', ''events'']. snd (report_slot vloop) = Some (KeyError k)"
    by (intro report_slot_missing) blast
  then show "\<exists>k\<in>set [''loopLength'', ''currentPulse'', ''isRecording'', ''isPlaying'',
      ''pulse'', ''events'']. snd (analyze_crash files filename) = Some (KeyError k)"
    by (simp only: run)
  then show "snd (analyze_crash files filename) \<noteq> Some LoadError"
    by auto
  show "take 4 (fst (analyze_crash files filename)) =
      [replicate 70 CHR ''='', ''VLoop CRASH ANALYSIS'', replicate 70 CHR ''='',
       CHR 0x0A # ''=== PLAYBACK STATE ==='']"
    by (simp only: run report_slot_starts)
  then show "analyze_crash files filename \<noteq> ([''ERROR: VLoop slot not found''], None)"
    by auto
qed

lemmas section_defs = banner_def playback_state_def debug_counters_def last_midi_sent_def
  bucket_analysis_def crash_point_def surrounding_buckets_def performance_stats_def
  py_sum_def len_events_def

theorem missing_required_key_witness:
  "analyze_crash [''vltest.json'' \<mapsto> \<lparr>slots = None\<rparr>] ''vltest.json''
      = ([], Some (KeyError ''slots''))
   \<and> analyze_crash [''vltest.json'' \<mapsto> \<lparr>slots = Some [example_slot\<lparr>isPlaying := None\<rparr>]\<rparr>]
        ''vltest.json''
      = ([replicate 70 CHR ''='', ''VLoop CRASH ANALYSIS'', replicate 70 CHR ''='',
          CHR 0x0A # ''=== PLAYBACK STATE ==='', ''Loop Length:    96 pulses'',
          ''Current Pulse:  50 <-- CRASHED HERE'', ''Is Recording:   False''],
         Some (KeyError ''isPlaying''))
   \<and> snd (analyze_crash
        [''vltest.json'' \<mapsto> \<lparr>slots = Some [example_slot\<lparr>buckets :=
           Some [mk_bucket 3 [], \<lparr>pulse = Some 4, events = None\<rparr>]\<rparr>]\<rparr>] ''vltest.json'')
      = Some (KeyError ''events'')"
  using missing_required_key
      [of "[''vltest.json'' \<mapsto> \<lparr>slots = None\<rparr>]" "''vltest.json''" "\<lparr>slots = None\<rparr>"]
    missing_required_key
      [of "[''vltest.json'' \<mapsto> \<lparr>slots = Some [example_slot\<lparr>isPlaying := None\<rparr>]\<rparr>]"
        "''vltest.json''" "\<lparr>slots = Some [example_slot\<lparr>isPlaying := None\<rparr>]\<rparr>"
        "[example_slot\<lparr>isPlaying := None\<rparr>]" "example_slot\<lparr>isPlaying := None\<rparr>"]
    missing_required_key
      [of "[''vltest.json'' \<mapsto> \<lparr>slots = Some [example_slot\<lparr>buckets :=
           Some [mk_bucket 3 [], \<lparr>pulse = Some 4, events = None\<rparr>]\<rparr>]\<rparr>]"
        "''vltest.json''" "\<lparr>slots = Some [example_slot\<lparr>buckets :=
           Some [mk_bucket 3 [], \<lparr>pulse = Some 4, events = None\<rparr>]\<rparr>]\<rparr>"
        "[example_slot\<lparr>buckets :=
           Some [mk_bucket 3 [], \<lparr>pulse = Some 4, events = None\<rparr>]\<rparr>]"
        "example_slot\<lparr>buckets := Some [mk_bucket 3 [], \<lparr>pulse = Some 4, events = None\<rparr>]\<rparr>"]
  by (simp add: analyze_crash_def json_load_def report_def report_slot_def section_defs
      example_slot_def example_counters_def mk_bucket_def mk_event_def last_midi_line_def
      str_bool_def format_comma_def group3.simps show_simps run_simps snd_seq)

section \<open>Missing optional keys\<close>

lemma report_slot_unfold:
  "report_slot v =
     seq banner
    (seq (playback_state v)
    (seq (debug_counters (get (debug v) empty_counters))
    (seq (last_midi_sent (get (debug v) empty_counters))
    (seq (bucket_analysis v (get (buckets v) []))
         (eval (item ''currentPulse'' (currentPulse v)) (\<lambda>crash_pulse.
            seq (crash_point crash_pulse (get (buckets v) []))
           (seq (surrounding_buckets crash_pulse (get (buckets v) []))
                (performance_stats v (get (debug v) empty_counters)))))))))"
  by (simp add: report_slot_def Let_def)

lemma sections_ignore_debug:
  "playback_state (v\<lparr>debug := x\<rparr>) = playback_state v"
  "bucket_analysis (v\<lparr>debug := x\<rparr>) bs = bucket_analysis v bs"
  "performance_stats (v\<lparr>debug := x\<rparr>) d = performance_stats v d"
  by (simp_all add: playback_state_def bucket_analysis_def performance_stats_def cong: if_cong)

lemma sections_ignore_buckets:
  "playback_state (v\<lparr>buckets := x\<rparr>) = playback_state v"
  "bucket_analysis (v\<lparr>buckets := x\<rparr>) bs = bucket_analysis v bs"
  "performance_stats (v\<lparr>buckets := x\<rparr>) d = performance_stats v d"
  by (simp_all add: playback_state_def bucket_analysis_def performance_stats_def cong: if_cong)

lemma sections_zero_counters:
  "debug_counters empty_counters = debug_counters zero_counters"
  "last_midi_sent empty_counters = last_midi_sent zero_counters"
  "performance_stats v empty_counters = performance_stats v zero_counters"
  by (simp_all add: debug_counters_def last_midi_sent_def performance_stats_def
      empty_counters_def zero_counters_def cong: if_cong)

lemma sections_zero_event:
  "debug_counters (d\<lparr>lastMidiSent := x\<rparr>) = debug_counters d"
  "performance_stats v (d\<lparr>lastMidiSent := x\<rparr>) = performance_stats v d"
  "last_midi_sent (d\<lparr>lastMidiSent := None\<rparr>)
     = last_midi_sent (d\<lparr>lastMidiSent := Some (mk_event 0 0 0)\<rparr>)"
  by (simp_all add: debug_counters_def last_midi_sent_def performance_stats_def
      empty_event_def mk_event_def cong: if_cong)

lemma absent_debug:
  "report_slot (vloop\<lparr>debug := None\<rparr>) = report_slot (vloop\<lparr>debug := Some zero_counters\<rparr>)"
  by (simp add: report_slot_unfold sections_ignore_debug sections_zero_counters)

lemma absent_last_midi:
  "report_slot (vloop\<lparr>debug := Some (dbg\<lparr>lastMidiSent := None\<rparr>)\<rparr>)
     = report_slot (vloop\<lparr>debug := Some (dbg\<lparr>lastMidiSent := Some (mk_event 0 0 0)\<rparr>)\<rparr>)"
  by (simp add: report_slot_unfold sections_ignore_debug sections_zero_event)

lemma absent_buckets:
  "report_slot (vloop\<lparr>buckets := None\<rparr>) = report_slot (vloop\<lparr>buckets := Some []\<rparr>)"
  by (simp add: report_slot_unfold sections_ignore_buckets)

lemma absent_last_midi_line:
  "last_midi_sent (dbg\<lparr>lastMidiSent := None\<rparr>) =
     ([CHR 0x0A # ''Last MIDI sent at pulse '' @ str_int (get (lastPulseWithMidi dbg) 0) @ '':'',
       ''  Status=0x0 data1=0 data2=0''], None)"
  by (simp add: last_midi_sent_def empty_event_def last_midi_line_def run_simps show_simps)

lemma minimal_report_slot:
  assumes "loopLength vloop = Some n" and "currentPulse vloop = Some cp"
    and "isRecording vloop = Some r" and "isPlaying vloop = Some p"
    and "debug vloop = None" and "buckets vloop = None"
  shows "report_slot vloop =
     ([replicate 70 CHR ''='', ''VLoop CRASH ANALYSIS'', replicate 70 CHR ''='',
       CHR 0x0A # ''=== PLAYBACK STATE ==='',
       ''Loop Length:    '' @ str_int n @ '' pulses'',
       ''Current Pulse:  '' @ str_int cp @ '' <-- CRASHED HERE'',
       ''Is Recording:   '' @ str_bool r,
       ''Is Playing:     '' @ str_bool p,
       CHR 0x0A # ''=== DEBUG COUNTERS ==='',
       ''Total step() calls:     0'',
       ''Total clock edges:      0'',
       ''Total MIDI received:    0'',
       ''Total MIDI sent:        0'',
       CHR 0x0A # ''Last MIDI sent at pulse 0:'',
       ''  Status=0x0 data1=0 data2=0'',
       CHR 0x0A # ''=== BUCKET ANALYSIS ==='',
       ''Non-empty buckets: 0/'' @ str_int n,
       ''Total recorded events: 0'',
       ''Max events per bucket: 0'',
       CHR 0x0A # ''=== CRASH POINT (Pulse '' @ str_int cp @ '') ==='',
       ''Bucket at crash pulse is EMPTY (no events)'',
       CHR 0x0A # ''=== SURROUNDING BUCKETS ==='',
       CHR 0x0A # ''=== PERFORMANCE STATS ===''], None)"
proof -
  have zero: "format_comma 0 = ''0''" "dec_digits 0 = ''0''" "hex 0 = ''0x0''"
    by (simp_all add: format_comma_def group3.simps hex_def hex_digits.simps dec_digits.simps
        digit_char_def)
  have zero_int: "str_int 0 = ''0''"
    by (simp add: str_int_def zero)
  show ?thesis
    using assms
    by (simp add: report_slot_def section_defs empty_counters_def empty_event_def
        last_midi_line_def zero zero_int run_simps)
qed


lemma sections_absent_counter:
  "debug_counters (d\<lparr>stepCallCount := None\<rparr>) = debug_counters (d\<lparr>stepCallCount := Some 0\<rparr>)"
  "debug_counters (d\<lparr>totalClockEdges := None\<rparr>) = debug_counters (d\<lparr>totalClockEdges := Some 0\<rparr>)"
  "debug_counters (d\<lparr>totalMidiReceived := None\<rparr>) = debug_counters (d\<lparr>totalMidiReceived := Some 0\<rparr>)"
  "debug_counters (d\<lparr>totalMidiSent := None\<rparr>) = debug_counters (d\<lparr>totalMidiSent := Some 0\<rparr>)"
  "debug_counters (d\<lparr>lastPulseWithMidi := x\<rparr>) = debug_counters d"
  "last_midi_sent (d\<lparr>stepCallCount := x\<rparr>) = last_midi_sent d"
  "last_midi_sent (d\<lparr>totalClockEdges := x\<rparr>) = last_midi_sent d"
  "last_midi_sent (d\<lparr>totalMidiReceived := x\<rparr>) = last_midi_sent d"
  "last_midi_sent (d\<lparr>totalMidiSent := x\<rparr>) = last_midi_sent d"
  "last_midi_sent (d\<lparr>lastPulseWithMidi := None\<rparr>) = last_midi_sent (d\<lparr>lastPulseWithMidi := Some 0\<rparr>)"
  "performance_stats v (d\<lparr>stepCallCount := None\<rparr>) = performance_stats v (d\<lparr>stepCallCount := Some 0\<rparr>)"
  "performance_stats v (d\<lparr>totalClockEdges := None\<rparr>) = performance_stats v (d\<lparr>totalClockEdges := Some 0\<rparr>)"
  "performance_stats v (d\<lparr>totalMidiReceived := x\<rparr>) = performance_stats v d"
  "performance_stats v (d\<lparr>totalMidiSent := x\<rparr>) = performance_stats v d"
  "performance_stats v (d\<lparr>lastPulseWithMidi := x\<rparr>) = performance_stats v d"
  by (simp_all add: debug_counters_def last_midi_sent_def performance_stats_def cong: if_cong)

text \<open>
  C9. Missing optional keys are not errors. A slot without \<^verbatim>\<open>debug\<close> gives the report
  of the same slot with all counters and \<^verbatim>\<open>lastPulseWithMidi\<close> zero; counters without one
  of these keys give the report of the counters with that key zero; counters without
  \<^verbatim>\<open>lastMidiSent\<close> give the report of the counters with the all-zero event, whose message
  is the fallback \<^verbatim>\<open>Status=0x0 data1=0 data2=0\<close>; a slot without \<^verbatim>\<open>buckets\<close> gives the
  report of the slot with the empty bucket list. With the four required keys present and
  both \<^verbatim>\<open>debug\<close> and \<^verbatim>\<open>buckets\<close> missing, the report runs to its end and raises
  nothing.
\<close>

theorem optional_fields_default:
  "report_slot (vloop\<lparr>debug := None\<rparr>) = report_slot (vloop\<lparr>debug := Some zero_counters\<rparr>)
   \<and> report_slot (vloop\<lparr>debug := Some (dbg\<lparr>stepCallCount := None\<rparr>)\<rparr>)
       = report_slot (vloop\<lparr>debug := Some (dbg\<lparr>stepCallCount := Some 0\<rparr>)\<rparr>)
   \<and> report_slot (vloop\<lparr>debug := Some (dbg\<lparr>totalClockEdges := None\<rparr>)\<rparr>)
       = report_slot (vloop\<lparr>debug := Some (dbg\<lparr>totalClockEdges := Some 0\<rparr>)\<rparr>)
   \<and> report_slot (vloop\<lparr>debug := Some (dbg\<lparr>totalMidiReceived := None\<rparr>)\<rparr>)
       = report_slot (vloop\<lparr>debug := Some (dbg\<lparr>totalMidiReceived := Some 0\<rparr>)\<rparr>)
   \<and> report_slot (vloop\<lparr>debug := Some (dbg\<lparr>totalMidiSent := None\<rparr>)\<rparr>)
       = report_slot (vloop\<lparr>debug := Some (dbg\<lparr>totalMidiSent := Some 0\<rparr>)\<rparr>)
   \<and> report_slot (vloop\<lparr>debug := Some (dbg\<lparr>lastPulseWithMidi := None\<rparr>)\<rparr>)
       = report_slot (vloop\<lparr>debug := Some (dbg\<lparr>lastPulseWithMidi := Some 0\<rparr>)\<rparr>)
   \<and> report_slot (vloop\<lparr>debug := Some (dbg\<lparr>lastMidiSent := None\<rparr>)\<rparr>)
       = report_slot (vloop\<lparr>debug := Some (dbg\<lparr>lastMidiSent := Some (mk_event 0 0 0)\<rparr>)\<rparr>)
   \<and> last_midi_sent (dbg\<lparr>lastMidiSent := None\<rparr>) =
       ([CHR 0x0A # ''Last MIDI sent at pulse '' @ str_int (get (lastPulseWithMidi dbg) 0) @ '':'',
         ''  Status=0x0 data1=0 data2=0''], None)
   \<and> report_slot (vloop\<lparr>buckets := None\<rparr>) = report_slot (vloop\<lparr>buckets := Some []\<rparr>)
   \<and> (slots data = Some ss \<and> find_vloop ss = Some v \<and> loopLength v = Some n
        \<and> currentPulse v = Some cp \<and> isRecording v = Some r \<and> isPlaying v = Some p
        \<and> debug v = None \<and> buckets v = None \<longrightarrow>
      report data =
        ([replicate 70 CHR ''='', ''VLoop CRASH ANALYSIS'', replicate 70 CHR ''='',
          CHR 0x0A # ''=== PLAYBACK STATE ==='',
          ''Loop Length:    '' @ str_int n @ '' pulses'',
          ''Current Pulse:  '' @ str_int cp @ '' <-- CRASHED HERE'',
          ''Is Recording:   '' @ str_bool r,
          ''Is Playing:     '' @ str_bool p,
          CHR 0x0A # ''=== DEBUG COUNTERS ==='',
          ''Total step() calls:     0'',
          ''Total clock edges:      0'',
          ''Total MIDI received:    0'',
          ''Total MIDI sent:        0'',
          CHR 0x0A # ''Last MIDI sent at pulse 0:'',
          ''  Status=0x0 data1=0 data2=0'',
          CHR 0x0A # ''=== BUCKET ANALYSIS ==='',
          ''Non-empty buckets: 0/'' @ str_int n,
          ''Total recorded events: 0'',
          ''Max events per bucket: 0'',
          CHR 0x0A # ''=== CRASH POINT (Pulse '' @ str_int cp @ '') ==='',
          ''Bucket at crash pulse is EMPTY (no events)'',
          CHR 0x0A # ''=== SURROUNDING BUCKETS ==='',
          CHR 0x0A # ''=== PERFORMANCE STATS ===''], None))"
proof -
  have counters:
    "report_slot (vloop\<lparr>debug := Some (dbg\<lparr>stepCallCount := None\<rparr>)\<rparr>)
       = report_slot (vloop\<lparr>debug := Some (dbg\<lparr>stepCallCount := Some 0\<rparr>)\<rparr>)"
    "report_slot (vloop\<lparr>debug := Some (dbg\<lparr>totalClockEdges := None\<rparr>)\<rparr>)
       = report_slot (vloop\<lparr>debug := Some (dbg\<lparr>totalClockEdges := Some 0\<rparr>)\<rparr>)"
    "report_slot (vloop\<lparr>debug := Some (dbg\<lparr>totalMidiReceived := None\<rparr>)\<rparr>)
       = report_slot (vloop\<lparr>debug := Some (dbg\<lparr>totalMidiReceived := Some 0\<rparr>)\<rparr>)"
    "report_slot (vloop\<lparr>debug := Some (dbg\<lparr>totalMidiSent := None\<rparr>)\<rparr>)
       = report_slot (vloop\<lparr>debug := Some (dbg\<lparr>totalMidiSent := Some 0\<rparr>)\<rparr>)"
    "report_slot (vloop\<lparr>debug := Some (dbg\<lparr>lastPulseWithMidi := None\<rparr>)\<rparr>)
       = report_slot (vloop\<lparr>debug := Some (dbg\<lparr>lastPulseWithMidi := Some 0\<rparr>)\<rparr>)"
    by (simp_all add: report_slot_unfold sections_ignore_debug sections_absent_counter)
  have minimal: "slots data = Some ss \<and> find_vloop ss = Some v \<and> loopLength v = Some n
        \<and> currentPulse v = Some cp \<and> isRecording v = Some r \<and> isPlaying v = Some p
        \<and> debug v = None \<and> buckets v = None \<longrightarrow>
      report data =
        ([replicate 70 CHR ''='', ''VLoop CRASH ANALYSIS'', replicate 70 CHR ''='',
          CHR 0x0A # ''=== PLAYBACK STATE ==='',
          ''Loop Length:    '' @ str_int n @ '' pulses'',
          ''Current Pulse:  '' @ str_int cp @ '' <-- CRASHED HERE'',
          ''Is Recording:   '' @ str_bool r,
          ''Is Playing:     '' @ str_bool p,
          CHR 0x0A # ''=== DEBUG COUNTERS ==='',
          ''Total step() calls:     0'',
          ''Total clock edges:      0'',
          ''Total MIDI received:    0'',
          ''Total MIDI sent:        0'',
          CHR 0x0A # ''Last MIDI sent at pulse 0:'',
          ''  Status=0x0 data1=0 data2=0'',
          CHR 0x0A # ''=== BUCKET ANALYSIS ==='',
          ''Non-empty buckets: 0/'' @ str_int n,
          ''Total recorded events: 0'',
          ''Max events per bucket: 0'',
          CHR 0x0A # ''=== CRASH POINT (Pulse '' @ str_int cp @ '') ==='',
          ''Bucket at crash pulse is EMPTY (no events)'',
          CHR 0x0A # ''=== SURROUNDING BUCKETS ==='',
          CHR 0x0A # ''=== PERFORMANCE STATS ===''], None)"
  proof
    assume a: "slots data = Some ss \<and> find_vloop ss = Some v \<and> loopLength v = Some n
        \<and> currentPulse v = Some cp \<and> isRecording v = Some r \<and> isPlaying v = Some p
        \<and> debug v = None \<and> buckets v = None"
    then have "report data = report_slot v"
      by (simp add: report_def)
    moreover from a have "loopLength v = Some n" "currentPulse v = Some cp"
      "isRecording v = Some r" "isPlaying v = Some p" "debug v = None" "buckets v = None"
      by blast+
    ultimately show "report data =
        ([replicate 70 CHR ''='', ''VLoop CRASH ANALYSIS'', replicate 70 CHR ''='',
          CHR 0x0A # ''=== PLAYBACK STATE ==='',
          ''Loop Length:    '' @ str_int n @ '' pulses'',
          ''Current Pulse:  '' @ str_int cp @ '' <-- CRASHED HERE'',
          ''Is Recording:   '' @ str_bool r,
          ''Is Playing:     '' @ str_bool p,
          CHR 0x0A # ''=== DEBUG COUNTERS ==='',
          ''Total step() calls:     0'',
          ''Total clock edges:      0'',
          ''Total MIDI received:    0'',
          ''Total MIDI sent:        0'',
          CHR 0x0A # ''Last MIDI sent at pulse 0:'',
          ''  Status=0x0 data1=0 data2=0'',
          CHR 0x0A # ''=== BUCKET ANALYSIS ==='',
          ''Non-empty buckets: 0/'' @ str_int n,
          ''Total recorded events: 0'',
          ''Max events per bucket: 0'',
          CHR 0x0A # ''=== CRASH POINT (Pulse '' @ str_int cp @ '') ==='',
          ''Bucket at crash pulse is EMPTY (no events)'',
          CHR 0x0A # ''=== SURROUNDING BUCKETS ==='',
          CHR 0x0A # ''=== PERFORMANCE STATS ===''], None)"
      by (simp only: minimal_report_slot)
  qed
  show ?thesis
    by (intro conjI absent_debug counters absent_last_midi absent_last_midi_line absent_buckets
        minimal)
qed

theorem optional_fields_default_witness:
  "report \<lparr>slots = Some (other_slots @ [example_slot\<lparr>debug := None, buckets := None\<rparr>])\<rparr> =
        ([replicate 70 CHR ''='', ''VLoop CRASH ANALYSIS'', replicate 70 CHR ''='',
          CHR 0x0A # ''=== PLAYBACK STATE ==='',
          ''Loop Length:    96 pulses'',
          ''Current Pulse:  50 <-- CRASHED HERE'',
          ''Is Recording:   False'',
          ''Is Playing:     True'',
          CHR 0x0A # ''=== DEBUG COUNTERS ==='',
          ''Total step() calls:     0'',
          ''Total clock edges:      0'',
          ''Total MIDI received:    0'',
          ''Total MIDI sent:        0'',
          CHR 0x0A # ''Last MIDI sent at pulse 0:'',
          ''  Status=0x0 data1=0 data2=0'',
          CHR 0x0A # ''=== BUCKET ANALYSIS ==='',
          ''Non-empty buckets: 0/96'',
          ''Total recorded events: 0'',
          ''Max events per bucket: 0'',
          CHR 0x0A # ''=== CRASH POINT (Pulse 50) ==='',
          ''Bucket at crash pulse is EMPTY (no events)'',
          CHR 0x0A # ''=== SURROUNDING BUCKETS ==='',
          CHR 0x0A # ''=== PERFORMANCE STATS ===''], None)"
  using optional_fields_default
    [where data = "\<lparr>slots = Some (other_slots @ [example_slot\<lparr>debug := None, buckets := None\<rparr>])\<rparr>"
      and ss = "other_slots @ [example_slot\<lparr>debug := None, buckets := None\<rparr>]"
      and v = "example_slot\<lparr>debug := None, buckets := None\<rparr>"
      and n = 96 and cp = 50 and r = False and p = True]
  by (simp add: other_slots_def example_slot_def str_bool_def show_simps)

section \<open>The performance ratios\<close>




lemma true_div_zero: "(true_div a b = Inl ZeroDivisionError) = (b = 0)"
  by (simp add: true_div_def Let_def)



lemma eval_snd_cases:
  "snd (eval x k) = (case x of Inl e \<Rightarrow> Some e | Inr v \<Rightarrow> snd (k v))"
  by (cases x) (simp_all add: raise_def)


































section \<open>The performance ratios beyond the doubles\<close>








section \<open>The performance section without clock edges\<close>

lemma quiet_skip: "quiet skip"
  by (simp add: quiet_def skip_def)

lemma quiet_raise: "quiet (raise e)"
  by (simp add: quiet_def raise_def)

lemma quiet_emit: "\<not> stat_line s \<Longrightarrow> quiet (emit s)"
  by (simp add: quiet_def emit_def)

lemma quiet_seq: "quiet a \<Longrightarrow> quiet b \<Longrightarrow> quiet (seq a b)"
  by (auto simp add: quiet_def seq_def split: option.splits)

lemma quiet_eval: "(\<And>v. quiet (k v)) \<Longrightarrow> quiet (eval x k)"
  by (cases x) (simp_all add: quiet_raise)

lemma stat_line_hd: "stat_line l \<Longrightarrow> hd l = CHR ''A'' \<or> hd l = CHR ''L''"
  by (cases l) (auto simp add: stat_line_def)

lemma quiet_banner: "quiet banner"
proof -
  have "\<not> stat_line (replicate 70 CHR ''='')"
    using stat_line_hd [of "replicate 70 CHR ''=''"] by auto
  moreover have "\<not> stat_line ''VLoop CRASH ANALYSIS''"
    by (simp add: stat_line_def)
  ultimately show ?thesis
    by (simp add: banner_lines quiet_def)
qed

lemma quiet_playback_state: "quiet (playback_state v)"
  unfolding playback_state_def
  by (intro quiet_seq quiet_eval quiet_emit) (simp_all add: stat_line_def)

lemma quiet_debug_counters: "quiet (debug_counters d)"
  unfolding debug_counters_def
  by (intro quiet_seq quiet_eval quiet_emit) (simp_all add: stat_line_def)

lemma quiet_last_midi_sent: "quiet (last_midi_sent d)"
  unfolding last_midi_sent_def Let_def
  by (intro quiet_seq quiet_eval quiet_emit) (simp_all add: stat_line_def last_midi_line_render)

lemma quiet_bucket_analysis: "quiet (bucket_analysis v bs)"
  unfolding bucket_analysis_def
  by (intro quiet_seq quiet_eval quiet_emit) (simp_all add: stat_line_def)

lemma quiet_print_events: "quiet (print_events i evs)"
proof (induction evs arbitrary: i)
  case Nil
  show ?case by (simp add: quiet_skip)
next
  case (Cons ev evs)
  show ?case
    unfolding print_events.simps Let_def
    by (intro quiet_seq quiet_eval quiet_emit Cons.IH) (simp add: stat_line_def)
qed

lemma quiet_crash_point: "quiet (crash_point cp bs)"
proof -
  have "quiet (case crash_bucket of
      Some b \<Rightarrow>
        eval (item ''events'' (events b)) (\<lambda>evs.
          seq (emit (''Bucket at crash has '' @ dec_digits (length evs) @ '' events:''))
              (print_events 0 evs))
    | None \<Rightarrow> emit ''Bucket at crash pulse is EMPTY (no events)'')"
    for crash_bucket :: "bucket option"
    by (cases crash_bucket)
      (auto intro!: quiet_seq quiet_eval quiet_emit quiet_print_events simp add: stat_line_def)
  then show ?thesis
    unfolding crash_point_def
    by (intro quiet_seq quiet_eval quiet_emit) (simp_all add: stat_line_def)
qed

lemma quiet_surrounding_loop: "quiet (surrounding_loop cp bs)"
proof (induction bs)
  case Nil
  show ?case by (simp add: quiet_skip)
next
  case (Cons b bs)
  have "quiet (if cp - 3 \<le> p \<and> p \<le> cp + 3 then
              eval (item ''pulse'' (pulse b)) (\<lambda>pulse_b.
              eval (item ''events'' (events b)) (\<lambda>evs.
                let marker = (if pulse_b = cp then '' <-- CRASH'' else [])
                in emit (''Pulse '' @ str_int pulse_b @ '': '' @ dec_digits (length evs) @
                     '' events'' @ marker)))
            else skip)" for p
    by (auto intro!: quiet_eval quiet_emit quiet_skip simp add: stat_line_def Let_def)
  then show ?case
    unfolding surrounding_loop.simps
    by (intro quiet_seq quiet_eval Cons.IH)
qed

lemma quiet_surrounding_buckets: "quiet (surrounding_buckets cp bs)"
  unfolding surrounding_buckets_def
  by (intro quiet_seq quiet_emit quiet_surrounding_loop) (simp add: stat_line_def)

lemma performance_stats_idle:
  "get (totalClockEdges d) 0 \<le> 0 \<Longrightarrow>
   performance_stats v d = ([CHR 0x0A # ''=== PERFORMANCE STATS ===''], None)"
  by (simp add: performance_stats_def run_simps)

lemma quiet_report_slot:
  assumes "get (totalClockEdges (get (debug v) empty_counters)) 0 \<le> 0"
  shows "quiet (report_slot v)"
proof -
  have "quiet (performance_stats v (get (debug v) empty_counters))"
    by (simp add: performance_stats_idle [OF assms] quiet_def stat_line_def)
  then show ?thesis
    unfolding report_slot_unfold
    by (intro quiet_seq quiet_eval quiet_banner quiet_playback_state quiet_debug_counters
        quiet_last_midi_sent quiet_bucket_analysis quiet_crash_point quiet_surrounding_buckets)
qed

lemma seq_finished:
  assumes "snd (seq a b) = None"
  shows "snd a = None" and "snd b = None" and "fst (seq a b) = fst a @ fst b"
  using assms by (simp_all add: seq_def split: option.splits)

lemma fst_seq: "snd a = None \<Longrightarrow> fst (seq a b) = fst a @ fst b"
  by (simp add: seq_def)

lemma last_seq:
  assumes "snd (seq a b) = None" and "fst b \<noteq> []"
  shows "last (fst (seq a b)) = last (fst b)"
  using seq_finished(3) [OF assms(1)] assms(2) by simp

lemma eval_finished:
  assumes "snd (eval x k) = None"
  obtains v where "x = Inr v" and "eval x k = k v"
  using assms by (cases x) (simp_all add: raise_def)


text \<open>A report that runs to its end is its sections' output, one after the other.\<close>

lemma report_slot_sections:
  assumes "snd (report_slot v) = None"
  obtains crash_pulse where "currentPulse v = Some crash_pulse"
    and "fst (report_slot v) =
      fst banner @ fst (playback_state v) @ fst (debug_counters (get (debug v) empty_counters)) @
      fst (last_midi_sent (get (debug v) empty_counters)) @
      fst (bucket_analysis v (get (buckets v) [])) @
      fst (crash_point crash_pulse (get (buckets v) [])) @
      fst (surrounding_buckets crash_pulse (get (buckets v) [])) @
      fst (performance_stats v (get (debug v) empty_counters))"
proof -
  note run = assms [unfolded report_slot_unfold]
  note r1 = seq_finished [OF run]
  note r2 = seq_finished [OF r1(2)]
  note r3 = seq_finished [OF r2(2)]
  note r4 = seq_finished [OF r3(2)]
  note r5 = seq_finished [OF r4(2)]
  from r5(2) obtain crash_pulse where cp: "currentPulse v = Some crash_pulse"
    by (cases "currentPulse v") (simp_all add: raise_def)
  from r5(2) have r6: "snd (seq (crash_point crash_pulse (get (buckets v) []))
      (seq (surrounding_buckets crash_pulse (get (buckets v) []))
           (performance_stats v (get (debug v) empty_counters)))) = None"
    by (simp add: cp)
  note r7 = seq_finished [OF r6]
  note r8 = seq_finished [OF r7(2)]
  have "fst (report_slot v) =
      fst banner @ fst (playback_state v) @ fst (debug_counters (get (debug v) empty_counters)) @
      fst (last_midi_sent (get (debug v) empty_counters)) @
      fst (bucket_analysis v (get (buckets v) [])) @
      fst (crash_point crash_pulse (get (buckets v) [])) @
      fst (surrounding_buckets crash_pulse (get (buckets v) [])) @
      fst (performance_stats v (get (debug v) empty_counters))"
    unfolding report_slot_unfold
    by (simp add: fst_seq r1(1) r2(1) r3(1) r4(1) r5(1) r7(1) r8(1) cp)
  with cp that show thesis by blast
qed

lemma report_slot_last:
  assumes "snd (report_slot v) = None"
  shows "last (fst (report_slot v))
     = last (fst (performance_stats v (get (debug v) empty_counters)))"
proof -
  have "fst (performance_stats v (get (debug v) empty_counters)) \<noteq> []"
    by (simp add: performance_stats_def seq_emit)
  moreover obtain crash_pulse where "fst (report_slot v) =
      fst banner @ fst (playback_state v) @ fst (debug_counters (get (debug v) empty_counters)) @
      fst (last_midi_sent (get (debug v) empty_counters)) @
      fst (bucket_analysis v (get (buckets v) [])) @
      fst (crash_point crash_pulse (get (buckets v) [])) @
      fst (surrounding_buckets crash_pulse (get (buckets v) [])) @
      fst (performance_stats v (get (debug v) empty_counters))"
    using report_slot_sections [OF assms] by blast
  ultimately show ?thesis
    by simp
qed

text \<open>
  C1, as the code has it. The header of the performance section is printed whatever the
  counters are. When the clock-edge counter is zero, negative or absent, the header is all
  the section prints: no line of the report shows a ratio, and a report that runs to its
  end ends with the header.
\<close>

theorem performance_header_only:
  assumes "slots data = Some ss" and "find_vloop ss = Some vloop"
    and "get (totalClockEdges (get (debug vloop) empty_counters)) 0 \<le> 0"
  shows "performance_stats vloop (get (debug vloop) empty_counters)
        = ([CHR 0x0A # ''=== PERFORMANCE STATS ===''], None)
    \<and> (\<forall>l\<in>set (fst (report data)). \<not> stat_line l)
    \<and> (snd (report data) = None \<longrightarrow>
          last (fst (report data)) = CHR 0x0A # ''=== PERFORMANCE STATS ==='')"
proof -
  have run: "report data = report_slot vloop"
    using assms(1,2) by (simp add: report_def)
  have idle: "performance_stats vloop (get (debug vloop) empty_counters)
        = ([CHR 0x0A # ''=== PERFORMANCE STATS ===''], None)"
    using assms(3) by (rule performance_stats_idle)
  moreover have "\<forall>l\<in>set (fst (report data)). \<not> stat_line l"
    using quiet_report_slot [OF assms(3)] by (simp add: run quiet_def)
  moreover have "last (fst (report data)) = CHR 0x0A # ''=== PERFORMANCE STATS ==='' "
    if "snd (report data) = None"
    using that report_slot_last [of vloop] by (simp add: run idle)
  ultimately show ?thesis by blast
qed

lemmas report_defs = report_def report_slot_def section_defs
  mk_bucket_def mk_event_def last_midi_line_def event_msg_def
  str_bool_def format_comma_def group3.simps show_simps run_simps

lemma idle_report:
  "report idle_snapshot =
     ([replicate 70 CHR ''='', ''VLoop CRASH ANALYSIS'', replicate 70 CHR ''='',
       CHR 0x0A # ''=== PLAYBACK STATE ==='',
       ''Loop Length:    96 pulses'',
       ''Current Pulse:  50 <-- CRASHED HERE'',
       ''Is Recording:   False'',
       ''Is Playing:     True'',
       CHR 0x0A # ''=== DEBUG COUNTERS ==='',
       ''Total step() calls:     1,000'',
       ''Total clock edges:      0'',
       ''Total MIDI received:    1,234,567'',
       ''Total MIDI sent:        3'',
       CHR 0x0A # ''Last MIDI sent at pulse 49:'',
       ''  Note Off ch2: note=40 vel=0'',
       CHR 0x0A # ''=== BUCKET ANALYSIS ==='',
       ''Non-empty buckets: 6/96'',
       ''Total recorded events: 8'',
       ''Max events per bucket: 3'',
       CHR 0x0A # ''=== CRASH POINT (Pulse 50) ==='',
       ''Bucket at crash has 2 events:'',
       ''  Event 0: Note On ch1: note=60 vel=100 <-- WOULD SEND THIS'',
       ''  Event 1: CC ch3: cc=7 val=127'',
       CHR 0x0A # ''=== SURROUNDING BUCKETS ==='',
       ''Pulse 52: 1 events'',
       ''Pulse 50: 2 events <-- CRASH'',
       ''Pulse 48: 3 events'',
       ''Pulse 49: 1 events'',
       CHR 0x0A # ''=== PERFORMANCE STATS ===''], None)"
  by (simp add: idle_snapshot_def other_slots_def report_defs example_slot_def
      example_counters_def idle_counters_def example_buckets_def)

text \<open>
  C1, as the specification words it, fails: with \<^verbatim>\<open>totalClockEdges\<close> equal to 0 the
  header of the performance section is in the report.
\<close>

theorem performance_header_counterexample:
  "totalClockEdges idle_counters = Some 0
   \<and> (CHR 0x0A # ''=== PERFORMANCE STATS ==='') \<in> set (fst (report idle_snapshot))"
  by (simp add: idle_report) (simp add: idle_counters_def)

theorem performance_header_only_witness:
  "last (fst (report idle_snapshot)) = CHR 0x0A # ''=== PERFORMANCE STATS ===''
   \<and> filter stat_line (fst (report idle_snapshot)) = []
   \<and> snd (report idle_snapshot) = None"
proof -
  have found: "slots idle_snapshot = Some (other_slots @ [example_slot\<lparr>debug := Some idle_counters\<rparr>])"
    "find_vloop (other_slots @ [example_slot\<lparr>debug := Some idle_counters\<rparr>])
       = Some (example_slot\<lparr>debug := Some idle_counters\<rparr>)"
    by (simp_all add: idle_snapshot_def other_slots_def example_slot_def)
  have idle: "get (totalClockEdges
      (get (debug (example_slot\<lparr>debug := Some idle_counters\<rparr>)) empty_counters)) 0 \<le> 0"
    by (simp add: idle_counters_def)
  from performance_header_only [OF found idle]
  have "\<forall>l\<in>set (fst (report idle_snapshot)). \<not> stat_line l"
    and "snd (report idle_snapshot) = None \<longrightarrow>
      last (fst (report idle_snapshot)) = CHR 0x0A # ''=== PERFORMANCE STATS ===''"
    by blast+
  moreover have "snd (report idle_snapshot) = None"
    by (simp add: idle_report)
  ultimately show ?thesis
    by (simp add: filter_empty_conv)
qed

end
